theory Spec2Isabelle
  imports Main
begin

section \<open>Data model of the Gradle plugin\<close>

text \<open>
  The plugin infers project targets from a Gradle report. JavaScript objects used as
  dictionaries (\<open>Record<string, T>\<close>) and \<open>Map<string, T>\<close> values are modelled by their own
  entries, as partial maps \<open>string \<rightharpoonup> T\<close>; a \<open>Map\<close> that is iterated is an association list in
  insertion order. An optional value (\<open>undefined\<close>) is \<open>None\<close>.

  A thrown value is an \<open>exn\<close>: \<open>TypeError\<close> is what the runtime raises on a method call on
  \<open>undefined\<close>, \<open>Thrown\<close> is raised by an external collaborator.
\<close>

datatype exn = TypeError | Thrown string

subsection \<open>Plain objects and \<open>Object.prototype\<close>\<close>

text \<open>
  An object written as a literal inherits from \<open>Object.prototype\<close>. Reading \<open>obj[key]\<close> gives
  the object's own entry when it has one; otherwise, when \<open>key\<close> is the name of a member of
  \<open>Object.prototype\<close>, it gives that member (a function, or the prototype itself for
  \<open>__proto__\<close>), which is truthy; otherwise it gives \<open>undefined\<close>. The names are those of
  the members that Node.js defines; no code adds others.
\<close>

definition objectPrototypeNames :: "string list" where
  "objectPrototypeNames =
     [''constructor'', ''__defineGetter__'', ''__defineSetter__'', ''hasOwnProperty'',
      ''__lookupGetter__'', ''__lookupSetter__'', ''isPrototypeOf'', ''propertyIsEnumerable'',
      ''toString'', ''valueOf'', ''__proto__'', ''toLocaleString'']"

datatype 'a property = NoValue | OwnValue 'a | ProtoMember string

definition getProperty :: "(string \<rightharpoonup> 'a) \<Rightarrow> string \<Rightarrow> 'a property" where
  "getProperty obj key =
     (case obj key of
        Some v \<Rightarrow> OwnValue v
      | None \<Rightarrow> if key \<in> set objectPrototypeNames then ProtoMember key else NoValue)"

subsection \<open>Tasks, targets and projects\<close>

record GradleTask =
  type :: string
  name :: string

type_synonym GradlePluginOptions = "string \<rightharpoonup> string"

record TargetOptions =
  cwd :: string

record TargetConfiguration =
  command :: string
  options :: TargetOptions
  cache :: bool
  inputs :: "string list property"
  outputs :: "string list option"
  dependsOn :: "string list property"

text \<open>
  The object \<open>targets\<close>, a \<open>Record<string, TargetConfiguration>\<close> that starts as the literal
  \<open>{}\<close> (line 178). An assignment \<open>targets[key] = target\<close> (line 187) creates or replaces an
  own entry, except for the key \<open>__proto__\<close>: that key is an accessor of \<open>Object.prototype\<close>,
  and assigning an object to it replaces the prototype of \<open>targets\<close> and creates no own
  entry. \<open>prototypeTarget\<close> is \<open>None\<close> as long as the prototype is \<open>Object.prototype\<close>.
\<close>

record TargetsObject =
  ownTargets :: "string \<rightharpoonup> TargetConfiguration"
  prototypeTarget :: "TargetConfiguration option"

definition emptyTargets :: TargetsObject where
  "emptyTargets = \<lparr>ownTargets = Map.empty, prototypeTarget = None\<rparr>"

definition assignTarget :: "TargetsObject \<Rightarrow> string \<Rightarrow> TargetConfiguration \<Rightarrow> TargetsObject" where
  "assignTarget targets key target =
     (if key = ''__proto__'' then targets\<lparr>prototypeTarget := Some target\<rparr>
      else targets\<lparr>ownTargets := (ownTargets targets)(key \<mapsto> target)\<rparr>)"

text \<open>
  Where the last assignment under a key has left its target: in the own entry of that key,
  or, for \<open>__proto__\<close>, in the prototype.
\<close>

definition storedTarget :: "TargetsObject \<Rightarrow> string \<Rightarrow> TargetConfiguration option" where
  "storedTarget targets key =
     (if key = ''__proto__'' then prototypeTarget targets else ownTargets targets key)"

text \<open>
  An entry of the targets cache and of \<open>calculatedTargets\<close>: the object
  \<open>{ name, targets, targetGroups }\<close>.
\<close>

record CachedTargets =
  cachedName :: string
  cachedTargets :: TargetsObject
  cachedTargetGroups :: "string \<rightharpoonup> string list"

record ProjectMetadata =
  technologies :: "string list"

text \<open>
  The project descriptor that \<open>createNodes\<close> returns under the project root. Its fields are
  \<open>name\<close>, \<open>targets\<close> and \<open>metadata\<close>; \<open>projectTargetGroups\<close> is \<open>Some g\<close> when the object also has
  a \<open>targetGroups\<close> field and \<open>None\<close> when it has none.
\<close>

record ProjectConfiguration =
  projectName :: string
  projectTargets :: TargetsObject
  projectTargetGroups :: "(string \<rightharpoonup> string list) option"
  metadata :: ProjectMetadata

record NxJsonConfiguration =
  namedInputs :: "(string \<rightharpoonup> string list) option"

record CreateNodesContext =
  nxJsonConfiguration :: NxJsonConfiguration
  workspaceRoot :: string

text \<open>The four maps of the Gradle report, as \<open>getGradleReport\<close> returns them.\<close>

record GradleReport =
  gradleProjectToTasksTypeMap :: "string \<rightharpoonup> (string \<times> string) list"
  gradleFileToOutputDirsMap :: "string \<rightharpoonup> (string \<rightharpoonup> string)"
  gradleFileToGradleProjectMap :: "string \<rightharpoonup> string"
  gradleProjectToProjectName :: "string \<rightharpoonup> string"

text \<open>
  The imported functions, which are not part of the plugin's source, are parameters. Those
  that read the file system or run Gradle may throw.
\<close>

record Host =
  dirname :: "string \<Rightarrow> string"
  normalize :: "string \<Rightarrow> string"
  offsetFromRoot :: "string \<Rightarrow> string"
  calculateHashForCreateNodes ::
    "string \<Rightarrow> GradlePluginOptions \<Rightarrow> CreateNodesContext \<Rightarrow> exn + string"
  getGradleBinaryPath :: "exn + string"
  getGradleReport :: "exn + GradleReport"

text \<open>
  The result of one call of the \<open>createNodes\<close> function: the bare \<open>return\<close> gives
  \<open>undefined\<close>, the handler gives the empty object \<open>{}\<close>, and the two other returns give
  \<open>{ projects: { [projectRoot]: project } }\<close>.
\<close>

datatype CreateNodesResult =
  Undefined
  | EmptyObject
  | Projects string ProjectConfiguration

text \<open>
  The module's mutable state: the exported \<open>calculatedTargets\<close> object, the lines written by
  \<open>console.error\<close>, and the number of calls of \<open>getGradleReport\<close> made so far.
\<close>

record PluginState =
  calculatedTargets :: "string \<rightharpoonup> CachedTargets"
  consoleErrors :: "exn list"
  reportCalls :: nat

section \<open>The target rules\<close>

definition cacheableTaskType :: "string set" where
  "cacheableTaskType = {''Build'', ''Verification''}"

text \<open>
  The object literals \<open>dependsOnMap\<close> (lines 19 to 23) and the one that \<open>createInputsMap\<close>
  returns (lines 209 to 215) are given by their own entries; they are read with
  \<open>getProperty\<close>, which adds the inherited members.
\<close>

definition dependsOnMap :: "string \<rightharpoonup> string list" where
  "dependsOnMap =
     [''build'' \<mapsto> [''^build'', ''classes''],
      ''test'' \<mapsto> [''classes''],
      ''classes'' \<mapsto> [''^classes'']]"

text \<open>
  \<open>namedInputs?.production\<close> used as a condition: true when \<open>namedInputs\<close> is defined and has
  a \<open>production\<close> entry (an array, which is truthy also when it is empty).
\<close>

definition productionInput :: "(string \<rightharpoonup> string list) option \<Rightarrow> bool" where
  "productionInput ni =
     (case ni of None \<Rightarrow> False
      | Some presets \<Rightarrow> (case presets ''production'' of None \<Rightarrow> False | Some _ \<Rightarrow> True))"

definition createInputsMap :: "CreateNodesContext \<Rightarrow> (string \<rightharpoonup> string list)" where
  "createInputsMap context =
     (let ni = namedInputs (nxJsonConfiguration context) in
      [''build'' \<mapsto>
         (if productionInput ni then [''production'', ''^production'']
          else [''default'', ''^default'']),
       ''test'' \<mapsto>
         [''default'', if productionInput ni then ''^production'' else ''^default''],
       ''classes'' \<mapsto> [''default'', ''^default'']])"

text \<open>
  Line 181: \<open>options?.[`${task.name}TargetName`] ?? task.name\<close>. The operator \<open>??\<close> falls back
  only on \<open>undefined\<close>, so an option that is the empty string is kept. The key ends with
  \<open>TargetName\<close>, so it is never the name of a member of \<open>Object.prototype\<close> (lemma
  \<open>targetName_key_not_inherited\<close>), and the read sees the own entries of \<open>options\<close> only.
\<close>

definition targetNameOf :: "GradlePluginOptions option \<Rightarrow> GradleTask \<Rightarrow> string" where
  "targetNameOf opts task =
     (case opts of None \<Rightarrow> name task
      | Some os \<Rightarrow> (case os (name task @ ''TargetName'') of None \<Rightarrow> name task | Some v \<Rightarrow> v))"

text \<open>
  Line 194: \<open>outputs ? [outputs] : undefined\<close>. The condition is the truthiness of a string
  or \<open>undefined\<close>: the empty string is falsy.
\<close>

definition outputsOf :: "string option \<Rightarrow> string list option" where
  "outputsOf outs =
     (case outs of None \<Rightarrow> None | Some dir \<Rightarrow> (if dir = [] then None else Some [dir]))"

text \<open>
  Lines 187 to 196: the object stored for one task. \<open>inputsMap[task.name]\<close> and
  \<open>dependsOnMap[task.name]\<close> read plain objects; \<open>outputDirs\<close> is a \<open>Map\<close>, whose \<open>get\<close> sees
  its entries only.
\<close>

definition targetOf ::
  "string \<Rightarrow> string \<Rightarrow> (string \<rightharpoonup> string list) \<Rightarrow> string option \<Rightarrow> GradleTask
     \<Rightarrow> TargetConfiguration" where
  "targetOf path gradleFile inputsMap outs task =
     \<lparr>command = path @ gradleFile @ '' '' @ name task,
      options = \<lparr>cwd = ''{projectRoot}''\<rparr>,
      cache = (type task \<in> cacheableTaskType),
      inputs = getProperty inputsMap (name task),
      outputs = outputsOf outs,
      dependsOn = getProperty dependsOnMap (name task)\<rparr>"

text \<open>
  Lines 197 to 200: the task's name is pushed on the group of its type, which is created
  when \<open>targetGroups[task.type]\<close> is falsy. For a type that is the name of a member of
  \<open>Object.prototype\<close> the read gives that member, which is truthy and has no \<open>push\<close>: no
  group is created and the call of \<open>push\<close> raises a \<open>TypeError\<close>.
\<close>

definition pushGroup ::
  "(string \<rightharpoonup> string list) \<Rightarrow> GradleTask \<Rightarrow> exn + (string \<rightharpoonup> string list)" where
  "pushGroup targetGroups task =
     (case getProperty targetGroups (type task) of
        OwnValue g \<Rightarrow> Inr (targetGroups(type task \<mapsto> g @ [name task]))
      | ProtoMember m \<Rightarrow> Inl TypeError
      | NoValue \<Rightarrow> Inr (targetGroups(type task \<mapsto> [name task])))"

text \<open>
  The loop of \<open>createGradleTargets\<close>, with the two objects it fills as accumulators. Calling
  \<open>outputDirs.get\<close> on an undefined \<open>outputDirs\<close> raises a \<open>TypeError\<close>,
  \<open>getGradleBinaryPath\<close> may throw, and so may the push on the group; each ends the loop and
  the function. \<open>normalize\<close> returns a string, so the assignment \<open>path ??= ...\<close> never takes
  effect.
\<close>

fun createGradleTargets_loop ::
  "Host \<Rightarrow> string \<Rightarrow> GradlePluginOptions option \<Rightarrow> (string \<rightharpoonup> string list)
     \<Rightarrow> (string \<rightharpoonup> string) option \<Rightarrow> GradleTask list
     \<Rightarrow> TargetsObject \<times> (string \<rightharpoonup> string list)
     \<Rightarrow> exn + TargetsObject \<times> (string \<rightharpoonup> string list)" where
  "createGradleTargets_loop h projectRoot opts inputsMap outputDirs [] acc = Inr acc"
| "createGradleTargets_loop h projectRoot opts inputsMap outputDirs (task # tasks)
       (targets, targetGroups) =
     (let targetName = targetNameOf opts task in
      case outputDirs of
        None \<Rightarrow> Inl TypeError
      | Some dirs \<Rightarrow>
          (let outs = dirs (name task);
               path = normalize h (offsetFromRoot h projectRoot) in
           case getGradleBinaryPath h of
             Inl e \<Rightarrow> Inl e
           | Inr gradleFile \<Rightarrow>
               (case pushGroup targetGroups task of
                  Inl e \<Rightarrow> Inl e
                | Inr groups \<Rightarrow>
                    createGradleTargets_loop h projectRoot opts inputsMap outputDirs tasks
                      (assignTarget targets targetName
                         (targetOf path gradleFile inputsMap outs task),
                       groups))))"

text \<open>The key and the object that one pass of the loop stores.\<close>

definition entryOf ::
  "Host \<Rightarrow> string \<Rightarrow> GradlePluginOptions option \<Rightarrow> (string \<rightharpoonup> string list)
     \<Rightarrow> (string \<rightharpoonup> string) \<Rightarrow> string \<Rightarrow> GradleTask \<Rightarrow> string \<times> TargetConfiguration" where
  "entryOf h projectRoot opts inputsMap dirs gradleFile task =
     (targetNameOf opts task,
      targetOf (normalize h (offsetFromRoot h projectRoot)) gradleFile inputsMap
        (dirs (name task)) task)"

definition createGradleTargets ::
  "Host \<Rightarrow> GradleTask list \<Rightarrow> string \<Rightarrow> GradlePluginOptions option \<Rightarrow> CreateNodesContext
     \<Rightarrow> (string \<rightharpoonup> string) option
     \<Rightarrow> exn + TargetsObject \<times> (string \<rightharpoonup> string list)" where
  "createGradleTargets h tasks projectRoot opts context outputDirs =
     createGradleTargets_loop h projectRoot opts (createInputsMap context) outputDirs tasks
       (emptyTargets, Map.empty)"

section \<open>The node emitter\<close>

text \<open>Line 84: \<open>options ?? {}\<close>.\<close>

definition optionsOrEmpty :: "GradlePluginOptions option \<Rightarrow> GradlePluginOptions" where
  "optionsOrEmpty opts = (case opts of None \<Rightarrow> Map.empty | Some os \<Rightarrow> os)"

text \<open>
  Lines 101 to 158, the body of the \<open>try\<close> block. An exception leaves it as \<open>Inl\<close>. The
  project is the value of \<open>gradleFileToGradleProjectMap.get\<close>, which may be \<open>undefined\<close>; the
  maps keyed by project have no entry for \<open>undefined\<close>. \<open>!projectName\<close> holds for \<open>undefined\<close>
  and for the empty string.
\<close>

definition createNodes_try ::
  "Host \<Rightarrow> string \<Rightarrow> string \<Rightarrow> string \<Rightarrow> GradlePluginOptions option \<Rightarrow> CreateNodesContext
     \<Rightarrow> PluginState \<Rightarrow> (exn + CreateNodesResult) \<times> PluginState" where
  "createNodes_try h gradleFilePath projectRoot hash opts context s =
     (let s1 = s\<lparr>reportCalls := Suc (reportCalls s)\<rparr> in
      case getGradleReport h of
        Inl e \<Rightarrow> (Inl e, s1)
      | Inr report \<Rightarrow>
          (let gradleProject = gradleFileToGradleProjectMap report gradleFilePath;
               pn = (case gradleProject of None \<Rightarrow> None
                     | Some p \<Rightarrow> gradleProjectToProjectName report p) in
           case pn of
             None \<Rightarrow> (Inr Undefined, s1)
           | Some pname \<Rightarrow>
               if pname = [] then (Inr Undefined, s1)
               else
                 (case (case gradleProject of None \<Rightarrow> None
                        | Some p \<Rightarrow> gradleProjectToTasksTypeMap report p) of
                    None \<Rightarrow> (Inl TypeError, s1)
                  | Some tasksTypeMap \<Rightarrow>
                      (let tasks = map (\<lambda>(taskName, taskType).
                                     \<lparr>type = taskType, name = taskName\<rparr>) tasksTypeMap;
                           outputDirs = gradleFileToOutputDirsMap report gradleFilePath in
                       case createGradleTargets h tasks projectRoot opts context outputDirs of
                         Inl e \<Rightarrow> (Inl e, s1)
                       | Inr (targets, targetGroups) \<Rightarrow>
                           (Inr (Projects projectRoot
                                  \<lparr>projectName = pname,
                                   projectTargets = targets,
                                   projectTargetGroups = None,
                                   metadata = \<lparr>technologies = [''gradle'']\<rparr>\<rparr>),
                            s1\<lparr>calculatedTargets := (calculatedTargets s1)(hash \<mapsto>
                                  \<lparr>cachedName = pname,
                                   cachedTargets = targets,
                                   cachedTargetGroups = targetGroups\<rparr>)\<rparr>)))))"

text \<open>
  Lines 80 to 163. The hash is computed and looked up in \<open>targetsCache\<close> before the \<open>try\<close>
  block is entered, so an exception of \<open>calculateHashForCreateNodes\<close> leaves the function
  (\<open>Inl\<close>). On a hit the cached entry is spread into the descriptor, which therefore carries
  its \<open>targetGroups\<close> too. The handler logs the exception and returns \<open>{}\<close>. A hash is a
  digest, a string of digits, and never the name of a member of \<open>Object.prototype\<close>: the
  read of \<open>targetsCache[hash]\<close> sees own entries only, and the write of
  \<open>calculatedTargets[hash]\<close> creates or replaces an own entry.
\<close>

definition createNodes ::
  "Host \<Rightarrow> (string \<rightharpoonup> CachedTargets) \<Rightarrow> string \<Rightarrow> GradlePluginOptions option
     \<Rightarrow> CreateNodesContext \<Rightarrow> PluginState \<Rightarrow> (exn + CreateNodesResult) \<times> PluginState" where
  "createNodes h targetsCache gradleFilePath opts context s =
     (let projectRoot = dirname h gradleFilePath in
      case calculateHashForCreateNodes h projectRoot (optionsOrEmpty opts) context of
        Inl e \<Rightarrow> (Inl e, s)
      | Inr hash \<Rightarrow>
          (case targetsCache hash of
             Some cached \<Rightarrow>
               (Inr (Projects projectRoot
                      \<lparr>projectName = cachedName cached,
                       projectTargets = cachedTargets cached,
                       projectTargetGroups = Some (cachedTargetGroups cached),
                       metadata = \<lparr>technologies = [''gradle'']\<rparr>\<rparr>),
                s\<lparr>calculatedTargets := (calculatedTargets s)(hash \<mapsto> cached)\<rparr>)
           | None \<Rightarrow>
               (case createNodes_try h gradleFilePath projectRoot hash opts context s of
                  (Inl e, s') \<Rightarrow> (Inr EmptyObject, s'\<lparr>consoleErrors := consoleErrors s' @ [e]\<rparr>)
                | (Inr r, s') \<Rightarrow> (Inr r, s'))))"

section \<open>The cache file and a run over several files\<close>





section \<open>Reading results\<close>

text \<open>
  The target stored under a key of a result of \<open>createGradleTargets\<close>, and the keys of the
  resulting \<open>targets\<close> (its own entries, as \<open>Object.keys\<close> lists them).
\<close>

definition lookupTarget ::
  "exn + TargetsObject \<times> (string \<rightharpoonup> string list) \<Rightarrow> string \<Rightarrow> TargetConfiguration option" where
  "lookupTarget res k =
     (case res of Inl e \<Rightarrow> None | Inr (targets, targetGroups) \<Rightarrow> storedTarget targets k)"

definition targetKeys ::
  "exn + TargetsObject \<times> (string \<rightharpoonup> string list) \<Rightarrow> string set" where
  "targetKeys res =
     (case res of Inl e \<Rightarrow> {} | Inr (targets, targetGroups) \<Rightarrow> dom (ownTargets targets))"

text \<open>Lines 80 to 86: the hash that \<open>createNodes\<close> computes for a build file.\<close>

definition fileHash ::
  "Host \<Rightarrow> GradlePluginOptions option \<Rightarrow> CreateNodesContext \<Rightarrow> string \<Rightarrow> exn + string" where
  "fileHash h opts context gradleFilePath =
     calculateHashForCreateNodes h (dirname h gradleFilePath) (optionsOrEmpty opts) context"

text \<open>The project descriptor of a result of \<open>createNodes\<close>, when it has one.\<close>

definition projectOf :: "exn + CreateNodesResult \<Rightarrow> ProjectConfiguration option" where
  "projectOf r = (case r of Inr (Projects root d) \<Rightarrow> Some d | _ \<Rightarrow> None)"

text \<open>The names of the fields of a project descriptor.\<close>

definition projectFields :: "ProjectConfiguration \<Rightarrow> string set" where
  "projectFields d =
     {''name'', ''targets'', ''metadata''} \<union>
     (case projectTargetGroups d of None \<Rightarrow> {} | Some g \<Rightarrow> {''targetGroups''})"

section \<open>Example inputs\<close>

definition buildTask :: GradleTask where
  "buildTask = \<lparr>type = ''Build'', name = ''build''\<rparr>"

definition testTask :: GradleTask where
  "testTask = \<lparr>type = ''Verification'', name = ''test''\<rparr>"

definition classesTask :: GradleTask where
  "classesTask = \<lparr>type = ''Build'', name = ''classes''\<rparr>"

definition compileTask :: GradleTask where
  "compileTask = \<lparr>type = ''Build'', name = ''compile''\<rparr>"

definition cleanTask :: GradleTask where
  "cleanTask = \<lparr>type = ''Other'', name = ''clean''\<rparr>"

definition constructorTask :: GradleTask where
  "constructorTask = \<lparr>type = ''Build'', name = ''constructor''\<rparr>"

definition plainContext :: CreateNodesContext where
  "plainContext = \<lparr>nxJsonConfiguration = \<lparr>namedInputs = None\<rparr>, workspaceRoot = ''/ws''\<rparr>"

definition productionContext :: CreateNodesContext where
  "productionContext =
     \<lparr>nxJsonConfiguration =
        \<lparr>namedInputs = Some [''production'' \<mapsto> [''default'', ''!{projectRoot}/src/test/**/*'']]\<rparr>,
      workspaceRoot = ''/ws''\<rparr>"

definition appReport :: GradleReport where
  "appReport =
     \<lparr>gradleProjectToTasksTypeMap =
        ['':app'' \<mapsto> [(''build'', ''Build''), (''test'', ''Verification''), (''clean'', ''Other'')]],
      gradleFileToOutputDirsMap = [''app/build.gradle'' \<mapsto> [''build'' \<mapsto> ''build/libs'']],
      gradleFileToGradleProjectMap = [''app/build.gradle'' \<mapsto> '':app''],
      gradleProjectToProjectName = ['':app'' \<mapsto> ''app'']\<rparr>"

definition appHost :: Host where
  "appHost =
     \<lparr>dirname = (\<lambda>p. ''app''),
      normalize = (\<lambda>p. p),
      offsetFromRoot = (\<lambda>p. ''../''),
      calculateHashForCreateNodes = (\<lambda>root os context. Inr ''7f3a''),
      getGradleBinaryPath = Inr ''gradlew'',
      getGradleReport = Inr appReport\<rparr>"

definition failingHashHost :: Host where
  "failingHashHost =
     appHost\<lparr>calculateHashForCreateNodes := (\<lambda>root os context. Inl (Thrown ''cannot hash''))\<rparr>"

definition failingReportHost :: Host where
  "failingReportHost = appHost\<lparr>getGradleReport := Inl (Thrown ''gradle failed'')\<rparr>"

definition initialState :: PluginState where
  "initialState = \<lparr>calculatedTargets = Map.empty, consoleErrors = [], reportCalls = 0\<rparr>"

definition appCached :: CachedTargets where
  "appCached =
     \<lparr>cachedName = ''app'', cachedTargets = emptyTargets,
      cachedTargetGroups = [''Build'' \<mapsto> [''build'']]\<rparr>"

definition appCache :: "string \<rightharpoonup> CachedTargets" where
  "appCache = [''7f3a'' \<mapsto> appCached]"

definition renameOptions :: "GradlePluginOptions option" where
  "renameOptions = Some [''buildTargetName'' \<mapsto> ''compile'']"

definition protoOptions :: "GradlePluginOptions option" where
  "protoOptions = Some [''buildTargetName'' \<mapsto> ''__proto__'']"



definition emptyOutputDirs :: "(string \<rightharpoonup> string) option" where
  "emptyOutputDirs = Some [''build'' \<mapsto> []]"

definition libsOutputDirs :: "(string \<rightharpoonup> string) option" where
  "libsOutputDirs = Some [''build'' \<mapsto> ''build/libs'']"

section \<open>Plain objects\<close>

text \<open>No member of \<open>Object.prototype\<close> has a name that ends with \<open>TargetName\<close>.\<close>

lemma targetName_key_not_inherited: "n @ ''TargetName'' \<notin> set objectPrototypeNames"
proof
  assume "n @ ''TargetName'' \<in> set objectPrototypeNames"
  then have "take 2 (rev (n @ ''TargetName'')) \<in> (\<lambda>m. take 2 (rev m)) ` set objectPrototypeNames"
    by (rule imageI)
  then show False
    by (simp add: objectPrototypeNames_def)
qed

lemma storedTarget_assignTarget:
  "storedTarget (assignTarget targets key target) = (storedTarget targets)(key \<mapsto> target)"
  by (rule ext) (simp add: storedTarget_def assignTarget_def)

lemma ownTargets_assignTarget_proto:
  "ownTargets (assignTarget targets key target) ''__proto__'' = ownTargets targets ''__proto__''"
  by (simp add: assignTarget_def)

lemma dom_ownTargets:
  "ownTargets targets ''__proto__'' = None \<Longrightarrow>
   dom (ownTargets targets) = dom (storedTarget targets) - {''__proto__''}"
  by (auto simp: storedTarget_def dom_def)

lemma pushGroup_returns:
  "type task \<notin> set objectPrototypeNames \<Longrightarrow> \<exists>groups. pushGroup targetGroups task = Inr groups"
  by (cases "targetGroups (type task)") (simp_all add: pushGroup_def getProperty_def)

section \<open>The loop of the rule engine in closed form\<close>

text \<open>The loop returns only on an empty task list or when both are available.\<close>

lemma loop_Inr_cases:
  "createGradleTargets_loop h projectRoot opts inputsMap outputDirs tasks acc = Inr res \<Longrightarrow>
   tasks = [] \<or> (\<exists>dirs gradleFile. outputDirs = Some dirs \<and> getGradleBinaryPath h = Inr gradleFile)"
  by (cases tasks; cases acc) (auto split: option.splits sum.splits)

text \<open>
  When the loop returns, its targets are those it was given, overridden by the entries of
  the tasks, a later task winning over an earlier one with the same key; and it has created
  no own entry \<open>__proto__\<close>.
\<close>

lemma loop_stored:
  assumes "getGradleBinaryPath h = Inr gradleFile"
    and "createGradleTargets_loop h projectRoot opts inputsMap (Some dirs) tasks
           (targets, targetGroups) = Inr (targets', targetGroups')"
  shows "storedTarget targets' =
           storedTarget targets ++
           map_of (rev (map (entryOf h projectRoot opts inputsMap dirs gradleFile) tasks)) \<and>
         ownTargets targets' ''__proto__'' = ownTargets targets ''__proto__''"
  using assms
proof (induction tasks arbitrary: targets targetGroups)
  case Nil
  then show ?case by simp
next
  case (Cons task tasks)
  from Cons.prems obtain groups where
    g: "pushGroup targetGroups task = Inr groups" and
    r: "createGradleTargets_loop h projectRoot opts inputsMap (Some dirs) tasks
          (assignTarget targets (targetNameOf opts task)
             (targetOf (normalize h (offsetFromRoot h projectRoot)) gradleFile inputsMap
                (dirs (name task)) task),
           groups) = Inr (targets', targetGroups')"
    by (auto split: sum.splits)
  let ?k = "targetNameOf opts task"
  let ?v = "targetOf (normalize h (offsetFromRoot h projectRoot)) gradleFile inputsMap
              (dirs (name task)) task"
  let ?rest = "map_of (rev (map (entryOf h projectRoot opts inputsMap dirs gradleFile) tasks))"
  from Cons.IH [OF Cons.prems(1) r]
  have ih: "storedTarget targets' = (storedTarget targets)(?k \<mapsto> ?v) ++ ?rest"
    and own: "ownTargets targets' ''__proto__'' = ownTargets targets ''__proto__''"
    unfolding storedTarget_assignTarget ownTargets_assignTarget_proto by blast+
  have "map_of (rev (map (entryOf h projectRoot opts inputsMap dirs gradleFile) (task # tasks))) =
          [?k \<mapsto> ?v] ++ ?rest"
    by (simp add: entryOf_def)
  moreover have "(storedTarget targets)(?k \<mapsto> ?v) ++ ?rest =
                 storedTarget targets ++ ([?k \<mapsto> ?v] ++ ?rest)"
    by (rule ext) (simp add: map_add_def split: option.splits)
  ultimately show ?case
    using ih own by simp
qed

lemma loop_returns:
  assumes "getGradleBinaryPath h = Inr gradleFile"
    and "\<forall>task \<in> set tasks. type task \<notin> set objectPrototypeNames"
  shows "\<exists>res. createGradleTargets_loop h projectRoot opts inputsMap (Some dirs) tasks acc = Inr res"
  using assms(2)
proof (induction tasks arbitrary: acc)
  case Nil
  then show ?case by simp
next
  case (Cons task tasks)
  obtain targets targetGroups where acc: "acc = (targets, targetGroups)"
    by (cases acc)
  from Cons.prems obtain groups where g: "pushGroup targetGroups task = Inr groups"
    using pushGroup_returns by fastforce
  from Cons.prems have "\<forall>task \<in> set tasks. type task \<notin> set objectPrototypeNames"
    by simp
  from Cons.IH [OF this] show ?case
    by (simp add: acc assms(1) g)
qed

lemma fst_entryOf:
  "fst (entryOf h projectRoot opts inputsMap dirs gradleFile task) = targetNameOf opts task"
  by (simp add: entryOf_def)

lemma map_of_entries_last:
  assumes "targetNameOf opts task \<notin> targetNameOf opts ` set post"
  shows "map_of (rev (map (entryOf h projectRoot opts inputsMap dirs gradleFile) (pre @ task # post)))
           (targetNameOf opts task) =
         Some (snd (entryOf h projectRoot opts inputsMap dirs gradleFile task))"
proof -
  let ?e = "entryOf h projectRoot opts inputsMap dirs gradleFile"
  have none: "map_of (rev (map ?e post)) (targetNameOf opts task) = None"
    using assms by (simp add: map_of_eq_None_iff image_image fst_entryOf)
  have "rev (map ?e (pre @ task # post)) = rev (map ?e post) @ ?e task # rev (map ?e pre)"
    by simp
  then show ?thesis
    using none by (simp add: map_add_def entryOf_def)
qed

text \<open>The targets of a result of \<open>createGradleTargets\<close>, for a task list that is not empty.\<close>

lemma createGradleTargets_Inr:
  assumes res: "createGradleTargets h tasks projectRoot opts context outputDirs =
                  Inr (targets, targetGroups)"
    and ne: "tasks \<noteq> []"
  shows "\<exists>dirs gradleFile. outputDirs = Some dirs \<and> getGradleBinaryPath h = Inr gradleFile \<and>
           storedTarget targets =
             map_of (rev (map (entryOf h projectRoot opts (createInputsMap context) dirs
                                 gradleFile) tasks)) \<and>
           ownTargets targets ''__proto__'' = None"
proof -
  from res ne loop_Inr_cases [of h projectRoot opts "createInputsMap context" outputDirs
      tasks "(emptyTargets, Map.empty)" "(targets, targetGroups)"]
  obtain dirs gradleFile
    where d: "outputDirs = Some dirs" and g: "getGradleBinaryPath h = Inr gradleFile"
    by (auto simp: createGradleTargets_def)
  have e: "storedTarget emptyTargets = Map.empty" "ownTargets emptyTargets ''__proto__'' = None"
    by (simp_all add: storedTarget_def emptyTargets_def fun_eq_iff)
  from loop_stored [OF g res [unfolded createGradleTargets_def d]] e d g show ?thesis
    by simp
qed

text \<open>
  The target of a task is found under its resolved name in the result, unless a later task
  resolves to the same name.
\<close>

lemma createGradleTargets_stored:
  assumes res: "createGradleTargets h (pre @ task # post) projectRoot opts context outputDirs =
                  Inr (targets, targetGroups)"
    and last: "targetNameOf opts task \<notin> targetNameOf opts ` set post"
  shows "\<exists>dirs gradleFile. outputDirs = Some dirs \<and> getGradleBinaryPath h = Inr gradleFile \<and>
           storedTarget targets (targetNameOf opts task) =
             Some (targetOf (normalize h (offsetFromRoot h projectRoot)) gradleFile
                     (createInputsMap context) (dirs (name task)) task)"
proof -
  from createGradleTargets_Inr [OF res] obtain dirs gradleFile where
    d: "outputDirs = Some dirs" and g: "getGradleBinaryPath h = Inr gradleFile" and
    t: "storedTarget targets =
          map_of (rev (map (entryOf h projectRoot opts (createInputsMap context) dirs gradleFile)
                        (pre @ task # post)))"
    by auto
  from t have "storedTarget targets (targetNameOf opts task) =
      Some (snd (entryOf h projectRoot opts (createInputsMap context) dirs gradleFile task))"
    using map_of_entries_last [OF last] by simp
  then show ?thesis
    using d g by (simp add: entryOf_def)
qed

text \<open>The own keys of the result are the resolved names, except \<open>__proto__\<close>.\<close>

lemma createGradleTargets_dom:
  assumes res: "createGradleTargets h tasks projectRoot opts context outputDirs =
                  Inr (targets, targetGroups)"
  shows "dom (ownTargets targets) = targetNameOf opts ` set tasks - {''__proto__''}"
proof (cases "tasks = []")
  case True
  with res have "targets = emptyTargets"
    by (simp add: createGradleTargets_def)
  with True show ?thesis
    by (simp add: emptyTargets_def)
next
  case False
  from createGradleTargets_Inr [OF res False] obtain dirs gradleFile where
    t: "storedTarget targets =
          map_of (rev (map (entryOf h projectRoot opts (createInputsMap context) dirs gradleFile)
                        tasks))" and
    p: "ownTargets targets ''__proto__'' = None"
    by auto
  from t have "dom (storedTarget targets) = targetNameOf opts ` set tasks"
    by (simp add: dom_map_of_conv_image_fst image_image fst_entryOf)
  with dom_ownTargets [OF p] show ?thesis
    by simp
qed

lemma createGradleTargets_returns:
  assumes "getGradleBinaryPath h = Inr gradleFile"
    and "\<forall>task \<in> set tasks. type task \<notin> set objectPrototypeNames"
  shows "\<exists>targets targetGroups.
           createGradleTargets h tasks projectRoot opts context (Some dirs) =
             Inr (targets, targetGroups)"
  using loop_returns [OF assms] by (simp add: createGradleTargets_def)

section \<open>The example inputs\<close>

lemmas example_defs = buildTask_def testTask_def classesTask_def compileTask_def cleanTask_def
  constructorTask_def plainContext_def productionContext_def appReport_def appHost_def
  failingHashHost_def failingReportHost_def initialState_def appCached_def appCache_def
  renameOptions_def protoOptions_def emptyOutputDirs_def libsOutputDirs_def

lemma example_task_types:
  "type buildTask \<notin> set objectPrototypeNames"
  "type testTask \<notin> set objectPrototypeNames"
  "type classesTask \<notin> set objectPrototypeNames"
  "type compileTask \<notin> set objectPrototypeNames"
  "type cleanTask \<notin> set objectPrototypeNames"
  "type constructorTask \<notin> set objectPrototypeNames"
  by (simp_all add: example_defs objectPrototypeNames_def)

lemma appHost_returns:
  assumes "\<forall>task \<in> set tasks. type task \<notin> set objectPrototypeNames"
  shows "\<exists>targets targetGroups.
           createGradleTargets appHost tasks projectRoot opts context libsOutputDirs =
             Inr (targets, targetGroups)"
  unfolding libsOutputDirs_def
  by (rule createGradleTargets_returns [of appHost "''gradlew''"])
    (simp_all add: appHost_def assms)

section \<open>The paths through the node emitter\<close>

lemma createNodes_throw:
  assumes "fileHash h opts context gradleFilePath = Inl e"
  shows "createNodes h targetsCache gradleFilePath opts context s = (Inl e, s)"
  using assms by (simp add: createNodes_def fileHash_def)

lemma createNodes_hit:
  assumes "fileHash h opts context gradleFilePath = Inr hash"
    and "targetsCache hash = Some cached"
  shows "createNodes h targetsCache gradleFilePath opts context s =
           (Inr (Projects (dirname h gradleFilePath)
                  \<lparr>projectName = cachedName cached,
                   projectTargets = cachedTargets cached,
                   projectTargetGroups = Some (cachedTargetGroups cached),
                   metadata = \<lparr>technologies = [''gradle'']\<rparr>\<rparr>),
            s\<lparr>calculatedTargets := (calculatedTargets s)(hash \<mapsto> cached)\<rparr>)"
  using assms by (simp add: createNodes_def fileHash_def)

lemma createNodes_miss:
  assumes "fileHash h opts context gradleFilePath = Inr hash"
    and "targetsCache hash = None"
  shows "createNodes h targetsCache gradleFilePath opts context s =
           (case createNodes_try h gradleFilePath (dirname h gradleFilePath) hash opts context s of
              (Inl e, s') \<Rightarrow> (Inr EmptyObject, s'\<lparr>consoleErrors := consoleErrors s' @ [e]\<rparr>)
            | (Inr r, s') \<Rightarrow> (Inr r, s'))"
  using assms by (simp add: createNodes_def fileHash_def)

text \<open>What the body of the try block does to the state, by the way it leaves.\<close>

lemma createNodes_try_cases:
  assumes "createNodes_try h gradleFilePath projectRoot hash opts context s = (r, s')"
  shows "(\<exists>pname targets targetGroups.
            r = Inr (Projects projectRoot
                      \<lparr>projectName = pname, projectTargets = targets,
                       projectTargetGroups = None,
                       metadata = \<lparr>technologies = [''gradle'']\<rparr>\<rparr>) \<and>
            s' = s\<lparr>reportCalls := Suc (reportCalls s),
                   calculatedTargets := (calculatedTargets s)(hash \<mapsto>
                     \<lparr>cachedName = pname, cachedTargets = targets,
                      cachedTargetGroups = targetGroups\<rparr>)\<rparr>) \<or>
         ((r = Inr Undefined \<or> (\<exists>e. r = Inl e)) \<and> s' = s\<lparr>reportCalls := Suc (reportCalls s)\<rparr>)"
  using assms
  by (auto simp: createNodes_try_def Let_def split: sum.splits option.splits if_splits prod.splits)

section \<open>Properties of the rule engine\<close>

text \<open>The definitions of the rule engine, for evaluation.\<close>

lemmas rule_defs = createGradleTargets_def createInputsMap_def productionInput_def
  targetNameOf_def targetOf_def outputsOf_def dependsOnMap_def cacheableTaskType_def
  pushGroup_def getProperty_def objectPrototypeNames_def assignTarget_def storedTarget_def
  emptyTargets_def lookupTarget_def targetKeys_def Let_def

text \<open>
  A task whose type is the name of a member of \<open>Object.prototype\<close> makes
  \<open>createGradleTargets\<close> throw, at the push on its group.
\<close>

lemma inherited_type_throws:
  "createGradleTargets appHost [\<lparr>type = ''constructor'', name = ''jar''\<rparr>] ''app'' None
     plainContext libsOutputDirs = Inl TypeError"
  "createGradleTargets appHost [buildTask, \<lparr>type = ''__proto__'', name = ''jar''\<rparr>] ''app'' None
     plainContext libsOutputDirs = Inl TypeError"
  by (simp_all add: example_defs rule_defs)

text \<open>
  Claim C1. For every task given to \<open>createGradleTargets\<close>, the target stored for it has
  \<open>cache\<close> true if and only if the task's type is \<open>Build\<close> or \<open>Verification\<close>, whatever the
  options are. The task is any element of the list; its target is read from the result
  under the task's resolved name, which holds it as long as no later task of the list
  resolves to the same name (with \<open>post = []\<close>: right after the task has been processed).
\<close>

theorem cache_flag_iff_cacheable_type:
  assumes "createGradleTargets h (pre @ task # post) projectRoot opts context outputDirs =
             Inr (targets, targetGroups)"
    and "targetNameOf opts task \<notin> targetNameOf opts ` set post"
  shows "\<exists>t. storedTarget targets (targetNameOf opts task) = Some t \<and>
           (cache t \<longleftrightarrow> type task = ''Build'' \<or> type task = ''Verification'')"
  using createGradleTargets_stored [OF assms]
  by (auto simp: targetOf_def cacheableTaskType_def)

theorem cache_flag_iff_cacheable_type_witness:
  "\<exists>targets targetGroups.
     createGradleTargets appHost ([buildTask] @ testTask # [cleanTask]) ''app'' renameOptions
       plainContext libsOutputDirs = Inr (targets, targetGroups) \<and>
     targetNameOf renameOptions testTask \<notin> targetNameOf renameOptions ` set [cleanTask] \<and>
     (\<exists>t. storedTarget targets (targetNameOf renameOptions testTask) = Some t \<and>
        (cache t \<longleftrightarrow> type testTask = ''Build'' \<or> type testTask = ''Verification''))"
proof -
  have "\<exists>targets targetGroups.
     createGradleTargets appHost ([buildTask] @ testTask # [cleanTask]) ''app'' renameOptions
       plainContext libsOutputDirs = Inr (targets, targetGroups)"
    by (rule appHost_returns) (simp add: example_task_types)
  then obtain targets targetGroups where
    r: "createGradleTargets appHost ([buildTask] @ testTask # [cleanTask]) ''app'' renameOptions
          plainContext libsOutputDirs = Inr (targets, targetGroups)"
    by blast
  have l: "targetNameOf renameOptions testTask \<notin> targetNameOf renameOptions ` set [cleanTask]"
    by (simp add: targetNameOf_def renameOptions_def testTask_def cleanTask_def)
  from cache_flag_iff_cacheable_type [OF r l] r l show ?thesis
    by blast
qed

text \<open>
  The \<open>dependsOn\<close> and the \<open>inputs\<close> of the target stored for a task, in general: the row of
  the table for \<open>build\<close>, \<open>test\<close> and \<open>classes\<close>, the inherited member for a name of a member
  of \<open>Object.prototype\<close>, and unset for every other name.
\<close>

lemma dependsOn_of_task:
  assumes "createGradleTargets h (pre @ task # post) projectRoot opts context outputDirs =
             Inr (targets, targetGroups)"
    and "targetNameOf opts task \<notin> targetNameOf opts ` set post"
  shows "\<exists>t. storedTarget targets (targetNameOf opts task) = Some t \<and>
           dependsOn t =
             (if name task = ''build'' then OwnValue [''^build'', ''classes'']
              else if name task = ''test'' then OwnValue [''classes'']
              else if name task = ''classes'' then OwnValue [''^classes'']
              else if name task \<in> set objectPrototypeNames then ProtoMember (name task)
              else NoValue)"
  using createGradleTargets_stored [OF assms]
  by (auto simp: targetOf_def dependsOnMap_def getProperty_def)

lemma inputs_of_task:
  assumes "createGradleTargets h (pre @ task # post) projectRoot opts context outputDirs =
             Inr (targets, targetGroups)"
    and "targetNameOf opts task \<notin> targetNameOf opts ` set post"
  shows "\<exists>t. storedTarget targets (targetNameOf opts task) = Some t \<and>
           inputs t =
             (if name task = ''build'' then
                (if productionInput (namedInputs (nxJsonConfiguration context))
                 then OwnValue [''production'', ''^production'']
                 else OwnValue [''default'', ''^default''])
              else if name task = ''test'' then
                OwnValue [''default'',
                          if productionInput (namedInputs (nxJsonConfiguration context))
                          then ''^production'' else ''^default'']
              else if name task = ''classes'' then OwnValue [''default'', ''^default'']
              else if name task \<in> set objectPrototypeNames then ProtoMember (name task)
              else NoValue)"
  using createGradleTargets_stored [OF assms]
  by (auto simp: targetOf_def createInputsMap_def getProperty_def)

text \<open>
  Claim C2. The \<open>dependsOn\<close> of the target of a task is to follow the task's name through
  the fixed table and to be unset for every name outside the table. The code reads the
  table with \<open>dependsOnMap[task.name]\<close>, which for the name of a member of \<open>Object.prototype\<close>
  gives that member: the task \<open>constructor\<close> gets a \<open>dependsOn\<close> that is not unset, where the
  task \<open>clean\<close> gets none and the task \<open>build\<close> gets its row.
\<close>

theorem dependsOn_inherited_member:
  "map_option dependsOn
     (lookupTarget
        (createGradleTargets appHost [buildTask, cleanTask, constructorTask] ''app'' None
           plainContext libsOutputDirs) ''constructor'') = Some (ProtoMember ''constructor'') \<and>
   map_option dependsOn
     (lookupTarget
        (createGradleTargets appHost [buildTask, cleanTask, constructorTask] ''app'' None
           plainContext libsOutputDirs) ''clean'') = Some NoValue \<and>
   map_option dependsOn
     (lookupTarget
        (createGradleTargets appHost [buildTask, cleanTask, constructorTask] ''app'' None
           plainContext libsOutputDirs) ''build'') = Some (OwnValue [''^build'', ''classes''])"
  by (simp add: example_defs rule_defs)

text \<open>
  Claim C3. The \<open>inputs\<close> of the target of a task are to follow the task's name and the
  presence of a \<open>production\<close> named input, and to be unset for every name other than \<open>build\<close>,
  \<open>test\<close> and \<open>classes\<close>. The code reads the table with \<open>inputsMap[task.name]\<close>, which for the
  name of a member of \<open>Object.prototype\<close> gives that member: the task \<open>constructor\<close> gets
  \<open>inputs\<close> that are not unset, where the task \<open>clean\<close> gets none. With a \<open>production\<close>
  named input \<open>build\<close> gets \<open>["production", "^production"]\<close> and \<open>test\<close> gets
  \<open>["default", "^production"]\<close>; without it \<open>build\<close> gets \<open>["default", "^default"]\<close>.
\<close>

theorem inputs_inherited_member:
  "map_option inputs
     (lookupTarget
        (createGradleTargets appHost [buildTask, testTask, cleanTask, constructorTask] ''app''
           None productionContext libsOutputDirs) ''constructor'') =
     Some (ProtoMember ''constructor'') \<and>
   map_option inputs
     (lookupTarget
        (createGradleTargets appHost [buildTask, testTask, cleanTask, constructorTask] ''app''
           None productionContext libsOutputDirs) ''clean'') = Some NoValue \<and>
   map_option inputs
     (lookupTarget
        (createGradleTargets appHost [buildTask, testTask, cleanTask, constructorTask] ''app''
           None productionContext libsOutputDirs) ''build'') =
     Some (OwnValue [''production'', ''^production'']) \<and>
   map_option inputs
     (lookupTarget
        (createGradleTargets appHost [buildTask, testTask, cleanTask, constructorTask] ''app''
           None productionContext libsOutputDirs) ''test'') =
     Some (OwnValue [''default'', ''^production'']) \<and>
   map_option inputs
     (lookupTarget
        (createGradleTargets appHost [buildTask, testTask, cleanTask, constructorTask] ''app''
           None plainContext libsOutputDirs) ''build'') =
     Some (OwnValue [''default'', ''^default''])"
  by (simp add: example_defs rule_defs)

text \<open>
  The target of a task, in general: unless the resolved name is \<open>__proto__\<close>, it is an own
  entry of the result under the resolved name, and its command, inputs and \<open>dependsOn\<close> are
  computed from the task's own name.
\<close>

lemma target_name_override_own:
  assumes res: "createGradleTargets h (pre @ task # post) projectRoot opts context outputDirs =
             Inr (targets, targetGroups)"
    and last: "targetNameOf opts task \<notin> targetNameOf opts ` set post"
    and np: "targetNameOf opts task \<noteq> ''__proto__''"
  shows "\<exists>gradleFile t.
           getGradleBinaryPath h = Inr gradleFile \<and>
           ownTargets targets
             (case opts of None \<Rightarrow> name task
              | Some os \<Rightarrow> (case os (name task @ ''TargetName'') of
                             None \<Rightarrow> name task | Some v \<Rightarrow> v)) = Some t \<and>
           command t =
             normalize h (offsetFromRoot h projectRoot) @ gradleFile @ '' '' @ name task \<and>
           inputs t = getProperty (createInputsMap context) (name task) \<and>
           dependsOn t = getProperty dependsOnMap (name task)"
proof -
  from createGradleTargets_stored [OF res last] obtain dirs gradleFile where
    g: "getGradleBinaryPath h = Inr gradleFile" and
    t: "storedTarget targets (targetNameOf opts task) =
          Some (targetOf (normalize h (offsetFromRoot h projectRoot)) gradleFile
                  (createInputsMap context) (dirs (name task)) task)"
    by blast
  from t np have "ownTargets targets (targetNameOf opts task) =
          Some (targetOf (normalize h (offsetFromRoot h projectRoot)) gradleFile
                  (createInputsMap context) (dirs (name task)) task)"
    by (simp add: storedTarget_def)
  then have "ownTargets targets
             (case opts of None \<Rightarrow> name task
              | Some os \<Rightarrow> (case os (name task @ ''TargetName'') of
                             None \<Rightarrow> name task | Some v \<Rightarrow> v)) =
          Some (targetOf (normalize h (offsetFromRoot h projectRoot)) gradleFile
                  (createInputsMap context) (dirs (name task)) task)"
    by (simp only: targetNameOf_def)
  with g show ?thesis
    by (simp add: targetOf_def)
qed

text \<open>
  Claim C6. The target of a task named \<open>N\<close> is to be stored under the option \<open>NTargetName\<close>
  when the options have one and under \<open>N\<close> otherwise. The code stores it with
  \<open>targets[targetName] = ...\<close> on a plain object, which for the name \<open>__proto__\<close> replaces the
  prototype and creates no entry: with \<open>buildTargetName = "__proto__"\<close> the task \<open>build\<close>
  leaves a \<open>targets\<close> without keys, and its target is the prototype of \<open>targets\<close>.
\<close>

theorem proto_target_name_not_stored:
  "targetNameOf protoOptions buildTask = ''__proto__'' \<and>
   targetKeys
     (createGradleTargets appHost [buildTask] ''app'' protoOptions plainContext libsOutputDirs) =
     {} \<and>
   map_option command
     (lookupTarget
        (createGradleTargets appHost [buildTask] ''app'' protoOptions plainContext
           libsOutputDirs) ''__proto__'') = Some ''../gradlew build''"
  by (simp add: example_defs rule_defs)

lemma outputsOf_not_empty_list: "outputsOf outs \<noteq> Some []"
  by (cases outs) (simp_all add: outputsOf_def)

text \<open>
  Claim C8, as amended. The \<open>outputs\<close> of the target stored for a task is the one-element
  list of the directory that \<open>outputDirs\<close> has for the task's name when that directory is
  not the empty string; it is unset when \<open>outputDirs\<close> has no entry for the name and when the
  entry is the empty string. It is never the empty list.
\<close>

theorem outputs_single_or_unset:
  assumes "createGradleTargets h (pre @ task # post) projectRoot opts context outputDirs =
             Inr (targets, targetGroups)"
    and "targetNameOf opts task \<notin> targetNameOf opts ` set post"
  shows "\<exists>dirs t. outputDirs = Some dirs \<and> storedTarget targets (targetNameOf opts task) = Some t \<and>
           outputs t =
             (case dirs (name task) of None \<Rightarrow> None
              | Some dir \<Rightarrow> if dir = [] then None else Some [dir]) \<and>
           outputs t \<noteq> Some []"
proof -
  from createGradleTargets_stored [OF assms] obtain dirs gradleFile where
    d: "outputDirs = Some dirs" and
    t: "storedTarget targets (targetNameOf opts task) =
          Some (targetOf (normalize h (offsetFromRoot h projectRoot)) gradleFile
                  (createInputsMap context) (dirs (name task)) task)"
    by blast
  let ?t = "targetOf (normalize h (offsetFromRoot h projectRoot)) gradleFile
              (createInputsMap context) (dirs (name task)) task"
  have o: "outputs ?t = outputsOf (dirs (name task))"
    by (simp add: targetOf_def)
  have "outputs ?t =
      (case dirs (name task) of None \<Rightarrow> None
       | Some dir \<Rightarrow> if dir = [] then None else Some [dir])"
    unfolding o by (simp add: outputsOf_def)
  moreover have "outputs ?t \<noteq> Some []"
    unfolding o by (rule outputsOf_not_empty_list)
  ultimately show ?thesis
    using d t by blast
qed

theorem outputs_single_or_unset_witness:
  "\<exists>targets targetGroups.
     createGradleTargets appHost ([] @ buildTask # [cleanTask]) ''app'' None
       plainContext libsOutputDirs = Inr (targets, targetGroups) \<and>
     targetNameOf None buildTask \<notin> targetNameOf None ` set [cleanTask] \<and>
     (\<exists>dirs t. libsOutputDirs = Some dirs \<and> storedTarget targets (targetNameOf None buildTask) = Some t \<and>
        outputs t =
          (case dirs (name buildTask) of None \<Rightarrow> None
           | Some dir \<Rightarrow> if dir = [] then None else Some [dir]) \<and>
        outputs t \<noteq> Some [])"
proof -
  have "\<exists>targets targetGroups.
     createGradleTargets appHost ([] @ buildTask # [cleanTask]) ''app'' None
       plainContext libsOutputDirs = Inr (targets, targetGroups)"
    by (rule appHost_returns) (simp add: example_task_types)
  then obtain targets targetGroups where
    r: "createGradleTargets appHost ([] @ buildTask # [cleanTask]) ''app'' None
          plainContext libsOutputDirs = Inr (targets, targetGroups)"
    by blast
  have l: "targetNameOf None buildTask \<notin> targetNameOf None ` set [cleanTask]"
    by (simp add: targetNameOf_def buildTask_def cleanTask_def)
  from outputs_single_or_unset [OF r l] r l show ?thesis
    by blast
qed

text \<open>
  Claim C8 as stated fails when the entry is the empty string: \<open>outputDirs\<close> has an entry
  for \<open>build\<close>, and the \<open>outputs\<close> of the target \<open>build\<close> is unset.
\<close>

theorem outputs_empty_string_counterexample:
  "the emptyOutputDirs ''build'' = Some [] \<and>
   map_option outputs
     (lookupTarget
        (createGradleTargets appHost [buildTask] ''app'' None plainContext emptyOutputDirs)
        ''build'') = Some None"
  by (simp add: example_defs rule_defs)


text \<open>
  Claim C9, as amended. For a task list in which no task resolves to the name \<open>__proto__\<close>,
  the keys of the resulting targets are the resolved names of the tasks. When, in addition,
  the resolved names of the tasks are pairwise distinct, the result has as many targets as
  there are tasks, and each task's own target is stored under its resolved name.
\<close>

theorem one_target_per_distinct_name:
  assumes res: "createGradleTargets h tasks projectRoot opts context outputDirs =
                  Inr (targets, targetGroups)"
    and np: "''__proto__'' \<notin> targetNameOf opts ` set tasks"
  shows "dom (ownTargets targets) = targetNameOf opts ` set tasks \<and>
         (distinct (map (targetNameOf opts) tasks) \<longrightarrow>
            card (dom (ownTargets targets)) = length tasks \<and>
            (\<forall>task \<in> set tasks.
               \<exists>dirs gradleFile. outputDirs = Some dirs \<and> getGradleBinaryPath h = Inr gradleFile \<and>
                 ownTargets targets (targetNameOf opts task) =
                   Some (targetOf (normalize h (offsetFromRoot h projectRoot)) gradleFile
                           (createInputsMap context) (dirs (name task)) task)))"
proof (intro conjI impI ballI)
  show d: "dom (ownTargets targets) = targetNameOf opts ` set tasks"
    using createGradleTargets_dom [OF res] np by simp
  assume dist: "distinct (map (targetNameOf opts) tasks)"
  have "card (targetNameOf opts ` set tasks) = length tasks"
    using dist by (metis distinct_card length_map list.set_map)
  with d show "card (dom (ownTargets targets)) = length tasks" by simp
  fix task
  assume m: "task \<in> set tasks"
  then obtain pre post where sp: "tasks = pre @ task # post"
    by (auto simp: in_set_conv_decomp)
  with dist have "targetNameOf opts task \<notin> targetNameOf opts ` set post"
    by auto
  with res sp obtain dirs gradleFile where
    s: "outputDirs = Some dirs \<and> getGradleBinaryPath h = Inr gradleFile \<and>
        storedTarget targets (targetNameOf opts task) =
          Some (targetOf (normalize h (offsetFromRoot h projectRoot)) gradleFile
                  (createInputsMap context) (dirs (name task)) task)"
    using createGradleTargets_stored by blast
  from m np have "targetNameOf opts task \<noteq> ''__proto__''"
    by (metis image_eqI)
  with s show "\<exists>dirs gradleFile. outputDirs = Some dirs \<and> getGradleBinaryPath h = Inr gradleFile \<and>
      ownTargets targets (targetNameOf opts task) =
        Some (targetOf (normalize h (offsetFromRoot h projectRoot)) gradleFile
                (createInputsMap context) (dirs (name task)) task)"
    by (auto simp: storedTarget_def)
qed

theorem one_target_per_distinct_name_witness:
  "\<exists>targets targetGroups.
     createGradleTargets appHost [buildTask, testTask, cleanTask] ''app'' renameOptions
       plainContext libsOutputDirs = Inr (targets, targetGroups) \<and>
     ''__proto__'' \<notin> targetNameOf renameOptions ` set [buildTask, testTask, cleanTask] \<and>
     distinct (map (targetNameOf renameOptions) [buildTask, testTask, cleanTask]) \<and>
     testTask \<in> set [buildTask, testTask, cleanTask] \<and>
     dom (ownTargets targets) = {''compile'', ''test'', ''clean''} \<and>
     card (dom (ownTargets targets)) = 3 \<and>
     map_option command (ownTargets targets ''test'') = Some ''../gradlew test''"
proof -
  have "\<exists>targets targetGroups.
     createGradleTargets appHost [buildTask, testTask, cleanTask] ''app'' renameOptions
       plainContext libsOutputDirs = Inr (targets, targetGroups)"
    by (rule appHost_returns) (simp add: example_task_types)
  then obtain targets targetGroups where
    r: "createGradleTargets appHost [buildTask, testTask, cleanTask] ''app'' renameOptions
          plainContext libsOutputDirs = Inr (targets, targetGroups)"
    by blast
  have p: "''__proto__'' \<notin> targetNameOf renameOptions ` set [buildTask, testTask, cleanTask]"
    by (simp add: targetNameOf_def renameOptions_def buildTask_def testTask_def cleanTask_def)
  have d: "distinct (map (targetNameOf renameOptions) [buildTask, testTask, cleanTask])"
    by (simp add: targetNameOf_def renameOptions_def buildTask_def testTask_def cleanTask_def)
  have m: "testTask \<in> set [buildTask, testTask, cleanTask]"
    by simp
  note main = one_target_per_distinct_name [OF r p]
  from main have "dom (ownTargets targets) = {''compile'', ''test'', ''clean''}"
    by (simp add: targetNameOf_def renameOptions_def buildTask_def testTask_def cleanTask_def)
  moreover from main d have "card (dom (ownTargets targets)) = 3"
    by simp
  moreover from main d m
  have "map_option command (ownTargets targets ''test'') = Some ''../gradlew test''"
    by (auto simp: targetNameOf_def targetOf_def example_defs)
  ultimately show ?thesis
    using r p d m by blast
qed

text \<open>
  Claim C9 as stated fails when an option renames one task to the name of another: the
  tasks \<open>build\<close> and \<open>compile\<close> with \<open>buildTargetName = "compile"\<close> give one target, that of
  the task \<open>compile\<close>.
\<close>

theorem renamed_target_collision_counterexample:
  "targetKeys
     (createGradleTargets appHost [buildTask, compileTask] ''app'' renameOptions plainContext
        libsOutputDirs) = {''compile''} \<and>
   length [buildTask, compileTask] = 2 \<and>
   map_option command
     (lookupTarget
        (createGradleTargets appHost [buildTask, compileTask] ''app'' renameOptions plainContext
           libsOutputDirs) ''compile'') = Some ''../gradlew compile''"
  by (simp add: example_defs rule_defs)

section \<open>Properties of the node emitter\<close>

text \<open>
  Claim C4. When the hash of the build file has an entry in the loaded cache, \<open>createNodes\<close>
  returns that entry with the technology tag \<open>["gradle"]\<close> under the project root, and
  \<open>getGradleReport\<close> is not called: the count of its calls is unchanged and the outcome is
  the same whatever the report would have been.
\<close>

theorem cache_hit_returns_cached_entry:
  assumes "fileHash h opts context gradleFilePath = Inr hash"
    and "targetsCache hash = Some cached"
  shows "createNodes h targetsCache gradleFilePath opts context s =
           (Inr (Projects (dirname h gradleFilePath)
                  \<lparr>projectName = cachedName cached,
                   projectTargets = cachedTargets cached,
                   projectTargetGroups = Some (cachedTargetGroups cached),
                   metadata = \<lparr>technologies = [''gradle'']\<rparr>\<rparr>),
            s\<lparr>calculatedTargets := (calculatedTargets s)(hash \<mapsto> cached)\<rparr>) \<and>
         reportCalls (snd (createNodes h targetsCache gradleFilePath opts context s)) =
           reportCalls s \<and>
         (\<forall>report. createNodes (h\<lparr>getGradleReport := report\<rparr>) targetsCache gradleFilePath opts
                     context s =
                   createNodes h targetsCache gradleFilePath opts context s)"
proof -
  have hit: "createNodes h targetsCache gradleFilePath opts context s =
           (Inr (Projects (dirname h gradleFilePath)
                  \<lparr>projectName = cachedName cached,
                   projectTargets = cachedTargets cached,
                   projectTargetGroups = Some (cachedTargetGroups cached),
                   metadata = \<lparr>technologies = [''gradle'']\<rparr>\<rparr>),
            s\<lparr>calculatedTargets := (calculatedTargets s)(hash \<mapsto> cached)\<rparr>)"
    using assms by (simp add: createNodes_hit)
  have other: "createNodes (h\<lparr>getGradleReport := report\<rparr>) targetsCache gradleFilePath opts
                 context s =
               createNodes h targetsCache gradleFilePath opts context s" for report
  proof -
    have "fileHash (h\<lparr>getGradleReport := report\<rparr>) opts context gradleFilePath = Inr hash"
      using assms(1) by (simp add: fileHash_def)
    with assms(2) hit show ?thesis
      by (simp add: createNodes_hit)
  qed
  from hit other show ?thesis
    by simp
qed

theorem cache_hit_returns_cached_entry_witness:
  "fileHash appHost None plainContext ''app/build.gradle'' = Inr ''7f3a'' \<and>
   appCache ''7f3a'' = Some appCached \<and>
   fst (createNodes appHost appCache ''app/build.gradle'' None plainContext initialState) =
     Inr (Projects ''app''
           \<lparr>projectName = ''app'',
            projectTargets = cachedTargets appCached,
            projectTargetGroups = Some (cachedTargetGroups appCached),
            metadata = \<lparr>technologies = [''gradle'']\<rparr>\<rparr>) \<and>
   reportCalls (snd (createNodes appHost appCache ''app/build.gradle'' None plainContext
                       initialState)) = 0 \<and>
   createNodes (appHost\<lparr>getGradleReport := Inl (Thrown ''gradle failed'')\<rparr>) appCache
       ''app/build.gradle'' None plainContext initialState =
     createNodes appHost appCache ''app/build.gradle'' None plainContext initialState"
proof -
  have k: "fileHash appHost None plainContext ''app/build.gradle'' = Inr ''7f3a''"
    by (simp add: fileHash_def appHost_def)
  have c: "appCache ''7f3a'' = Some appCached"
    by (simp add: appCache_def)
  note main = cache_hit_returns_cached_entry [of appHost None plainContext "''app/build.gradle''"
      "''7f3a''" appCache appCached initialState, OF k c]
  have d: "dirname appHost ''app/build.gradle'' = ''app''"
    by (simp add: appHost_def)
  have n: "cachedName appCached = ''app''"
    by (simp add: appCached_def)
  from main have "fst (createNodes appHost appCache ''app/build.gradle'' None plainContext
                         initialState) =
     Inr (Projects (dirname appHost ''app/build.gradle'')
           \<lparr>projectName = cachedName appCached,
            projectTargets = cachedTargets appCached,
            projectTargetGroups = Some (cachedTargetGroups appCached),
            metadata = \<lparr>technologies = [''gradle'']\<rparr>\<rparr>)"
    by simp
  then have r1: "fst (createNodes appHost appCache ''app/build.gradle'' None plainContext
                         initialState) =
     Inr (Projects ''app''
           \<lparr>projectName = ''app'',
            projectTargets = cachedTargets appCached,
            projectTargetGroups = Some (cachedTargetGroups appCached),
            metadata = \<lparr>technologies = [''gradle'']\<rparr>\<rparr>)"
    by (simp only: d n)
  from main have "reportCalls (snd (createNodes appHost appCache ''app/build.gradle'' None
                     plainContext initialState)) = reportCalls initialState"
    by blast
  then have r2: "reportCalls (snd (createNodes appHost appCache ''app/build.gradle'' None
                     plainContext initialState)) = 0"
    by (simp add: initialState_def)
  from main have r3: "createNodes (appHost\<lparr>getGradleReport := Inl (Thrown ''gradle failed'')\<rparr>)
       appCache ''app/build.gradle'' None plainContext initialState =
     createNodes appHost appCache ''app/build.gradle'' None plainContext initialState"
    by blast
  from k c r1 r2 r3 show ?thesis
    by (intro conjI)
qed

text \<open>
  Claim C5, as amended. Once the hash has been computed without an exception,
  \<open>createNodes\<close> returns to its caller: on a cache miss, an exception raised in the \<open>try\<close> block
  (retrieving the report, reading its maps, applying the rules) is caught, logged with
  \<open>console.error\<close> and turned into the empty object.
\<close>

theorem exceptions_of_try_block_caught:
  assumes "fileHash h opts context gradleFilePath = Inr hash"
  shows "(\<exists>r. fst (createNodes h targetsCache gradleFilePath opts context s) = Inr r) \<and>
         (\<forall>e s'. targetsCache hash = None \<and>
                  createNodes_try h gradleFilePath (dirname h gradleFilePath) hash opts context s =
                    (Inl e, s') \<longrightarrow>
                  createNodes h targetsCache gradleFilePath opts context s =
                    (Inr EmptyObject, s'\<lparr>consoleErrors := consoleErrors s' @ [e]\<rparr>))"
proof (cases "targetsCache hash")
  case None
  obtain r s' where t: "createNodes_try h gradleFilePath (dirname h gradleFilePath) hash opts
                           context s = (r, s')"
    by (cases "createNodes_try h gradleFilePath (dirname h gradleFilePath) hash opts context s")
  show ?thesis
    using createNodes_miss [of h opts "context" gradleFilePath hash targetsCache s, OF assms None] t
    by (cases r) auto
next
  case (Some cached)
  then show ?thesis
    using assms by (simp add: createNodes_hit)
qed

theorem exceptions_of_try_block_caught_witness:
  "fileHash failingReportHost None plainContext ''app/build.gradle'' = Inr ''7f3a'' \<and>
   Map.empty ''7f3a'' = (None :: CachedTargets option) \<and>
   createNodes_try failingReportHost ''app/build.gradle''
       (dirname failingReportHost ''app/build.gradle'') ''7f3a'' None plainContext initialState =
     (Inl (Thrown ''gradle failed''), initialState\<lparr>reportCalls := 1\<rparr>) \<and>
   fst (createNodes failingReportHost Map.empty ''app/build.gradle'' None plainContext
          initialState) = Inr EmptyObject \<and>
   consoleErrors (snd (createNodes failingReportHost Map.empty ''app/build.gradle'' None
                         plainContext initialState)) = [Thrown ''gradle failed'']"
proof -
  have k: "fileHash failingReportHost None plainContext ''app/build.gradle'' = Inr ''7f3a''"
    by (simp add: fileHash_def failingReportHost_def appHost_def)
  have t: "createNodes_try failingReportHost ''app/build.gradle''
       (dirname failingReportHost ''app/build.gradle'') ''7f3a'' None plainContext initialState =
     (Inl (Thrown ''gradle failed''), initialState\<lparr>reportCalls := 1\<rparr>)"
    by (simp add: createNodes_try_def failingReportHost_def appHost_def initialState_def)
  from exceptions_of_try_block_caught [of failingReportHost None plainContext "''app/build.gradle''" "''7f3a''" Map.empty initialState, OF k] t
  have "createNodes failingReportHost Map.empty ''app/build.gradle'' None plainContext
          initialState =
        (Inr EmptyObject,
         initialState\<lparr>reportCalls := 1,
           consoleErrors := consoleErrors (initialState\<lparr>reportCalls := 1\<rparr>) @
             [Thrown ''gradle failed'']\<rparr>)"
    by simp
  then show ?thesis
    using k t by (simp add: initialState_def)
qed

text \<open>
  Claim C5 as stated fails for hashing, which happens before the \<open>try\<close> block: an exception
  of \<open>calculateHashForCreateNodes\<close> reaches the caller, and nothing is logged.
\<close>

theorem hashing_exception_counterexample:
  "createNodes failingHashHost appCache ''app/build.gradle'' None plainContext initialState =
     (Inl (Thrown ''cannot hash''), initialState)"
  by (simp add: createNodes_def failingHashHost_def appHost_def optionsOrEmpty_def)

text \<open>The example host on the example build file: its hash, and a cache miss.\<close>

lemma appHost_fields:
  "dirname appHost p = ''app''"
  "calculateHashForCreateNodes appHost projectRoot os c = Inr ''7f3a''"
  "getGradleReport appHost = Inr appReport"
  by (simp_all add: appHost_def)

lemma appHost_fileHash: "fileHash appHost opts c gradleFilePath = Inr ''7f3a''"
  by (simp add: fileHash_def appHost_fields)

lemma appHost_miss:
  "\<exists>d s'. createNodes appHost Map.empty ''app/build.gradle'' opts plainContext s =
             (Inr (Projects ''app'' d), s')"
proof -
  have "\<exists>targets targetGroups.
     createGradleTargets appHost
       (map (\<lambda>(taskName, taskType). \<lparr>type = taskType, name = taskName\<rparr>)
          [(''build'', ''Build''), (''test'', ''Verification''), (''clean'', ''Other'')])
       ''app'' opts plainContext libsOutputDirs =
     Inr (targets, targetGroups)"
    by (rule appHost_returns) (simp add: objectPrototypeNames_def)
  then obtain targets targetGroups where
    "createGradleTargets appHost
       (map (\<lambda>(taskName, taskType). \<lparr>type = taskType, name = taskName\<rparr>)
          [(''build'', ''Build''), (''test'', ''Verification''), (''clean'', ''Other'')])
       ''app'' opts plainContext (Some [''build'' \<mapsto> ''build/libs'']) =
     Inr (targets, targetGroups)"
    unfolding libsOutputDirs_def by blast
  then show ?thesis
    by (simp add: createNodes_def createNodes_try_def appHost_fields appReport_def Let_def)
qed

text \<open>
  Claim C7, as amended. A contribution with a project maps the project root, the directory
  of the build file, to a descriptor whose \<open>metadata.technologies\<close> is \<open>["gradle"]\<close>. On a
  cache miss the descriptor has exactly the fields \<open>name\<close>, \<open>targets\<close> and \<open>metadata\<close>; on a
  cache hit it has the fields \<open>name\<close>, \<open>targets\<close> and \<open>targetGroups\<close> of the cached entry, and
  \<open>metadata\<close>.
\<close>

theorem project_descriptor_shape:
  assumes res: "createNodes h targetsCache gradleFilePath opts context s =
                  (Inr (Projects root d), s')"
  shows "root = dirname h gradleFilePath \<and>
         technologies (metadata d) = [''gradle''] \<and>
         (\<exists>hash. fileHash h opts context gradleFilePath = Inr hash \<and>
            (case targetsCache hash of
               None \<Rightarrow> projectFields d = {''name'', ''targets'', ''metadata''}
             | Some cached \<Rightarrow>
                 projectFields d = {''name'', ''targets'', ''targetGroups'', ''metadata''} \<and>
                 projectName d = cachedName cached \<and>
                 projectTargets d = cachedTargets cached \<and>
                 projectTargetGroups d = Some (cachedTargetGroups cached)))"
proof (cases "fileHash h opts context gradleFilePath")
  case (Inl e)
  from createNodes_throw [OF Inl] res show ?thesis
    by simp
next
  case (Inr hash)
  show ?thesis
  proof (cases "targetsCache hash")
    case (Some cached)
    with Inr res have "root = dirname h gradleFilePath \<and>
        d = \<lparr>projectName = cachedName cached,
             projectTargets = cachedTargets cached,
             projectTargetGroups = Some (cachedTargetGroups cached),
             metadata = \<lparr>technologies = [''gradle'']\<rparr>\<rparr>"
      by (simp add: createNodes_hit)
    with Inr Some show ?thesis
      by (auto simp: projectFields_def)
  next
    case None
    obtain r t where t: "createNodes_try h gradleFilePath (dirname h gradleFilePath) hash opts
                           context s = (r, t)"
      by (cases "createNodes_try h gradleFilePath (dirname h gradleFilePath) hash opts context s")
    from createNodes_miss [of h opts "context" gradleFilePath hash targetsCache s, OF Inr None]
      res t
    have r: "r = Inr (Projects root d)"
      by (cases r) auto
    from createNodes_try_cases [OF t] r
    have "root = dirname h gradleFilePath \<and> projectTargetGroups d = None \<and>
          metadata d = \<lparr>technologies = [''gradle'']\<rparr>"
      by auto
    with Inr None show ?thesis
      by (auto simp: projectFields_def)
  qed
qed

theorem project_descriptor_shape_witness:
  "\<exists>d s' e t'.
     createNodes appHost Map.empty ''app/build.gradle'' None plainContext initialState =
       (Inr (Projects ''app'' d), s') \<and>
     technologies (metadata d) = [''gradle''] \<and>
     projectFields d = {''name'', ''targets'', ''metadata''} \<and>
     createNodes appHost appCache ''app/build.gradle'' None plainContext initialState =
       (Inr (Projects ''app'' e), t') \<and>
     technologies (metadata e) = [''gradle''] \<and>
     projectFields e = {''name'', ''targets'', ''targetGroups'', ''metadata''} \<and>
     projectName e = ''app''"
proof -
  have k: "fileHash appHost None plainContext ''app/build.gradle'' = Inr ''7f3a''"
    by (rule appHost_fileHash)
  obtain d s' where
    m: "createNodes appHost Map.empty ''app/build.gradle'' None plainContext initialState =
          (Inr (Projects ''app'' d), s')"
    using appHost_miss by blast
  from project_descriptor_shape [OF m] k
  have md: "technologies (metadata d) = [''gradle''] \<and>
            projectFields d = {''name'', ''targets'', ''metadata''}"
    by auto
  obtain e t' where
    c: "createNodes appHost appCache ''app/build.gradle'' None plainContext initialState =
          (Inr (Projects ''app'' e), t')"
    using k by (simp add: createNodes_hit appCache_def appHost_fields)
  from project_descriptor_shape [OF c] k
  have ce: "technologies (metadata e) = [''gradle''] \<and>
            projectFields e = {''name'', ''targets'', ''targetGroups'', ''metadata''} \<and>
            projectName e = ''app''"
    by (auto simp: appCache_def appCached_def)
  show ?thesis
    apply (rule exI [of _ d], rule exI [of _ s'], rule exI [of _ e], rule exI [of _ t'])
    using m md c ce by simp
qed

text \<open>
  Claim C7 as stated fails on a cache hit: the descriptor is the cached entry spread out,
  so it has a \<open>targetGroups\<close> field next to \<open>name\<close>, \<open>targets\<close> and \<open>metadata\<close>.
\<close>

theorem cache_hit_descriptor_counterexample:
  "map_option projectTargetGroups
     (projectOf (fst (createNodes appHost appCache ''app/build.gradle'' None plainContext
                        initialState))) = Some (Some (cachedTargetGroups appCached)) \<and>
   map_option (\<lambda>d. ''targetGroups'' \<in> projectFields d)
     (projectOf (fst (createNodes appHost appCache ''app/build.gradle'' None plainContext
                        initialState))) = Some True"
  by (simp add: createNodes_hit [OF appHost_fileHash] appCache_def projectOf_def
      projectFields_def)

section \<open>The mirror of the cache over a run\<close>













end
